theory Spec2Isabelle
  imports Complex_Main "HOL-Library.Sublist" "HOL-Library.AList" "HOL-Library.Code_Target_Nat"
begin

section \<open>Strings, paths and the JavaScript values the scanner reads\<close>

text \<open>
  File names, and the bytes of a file, are \<^typ>\<open>string\<close>s. \<open>toLowerCase\<close> acts on
  the ASCII letters; every other character is left alone.
\<close>

definition lower_char :: "char \<Rightarrow> char" where
  "lower_char c =
     (let n = (of_char c :: nat) in if 65 \<le> n \<and> n \<le> 90 then char_of (n + 32) else c)"

definition toLowerCase :: "string \<Rightarrow> string" where
  "toLowerCase s = map lower_char s"

text \<open>\<open>s.startsWith(p)\<close> on names, and below \<open>s.includes(p)\<close> on texts.\<close>

definition startsWith :: "string \<Rightarrow> string \<Rightarrow> bool" where
  "startsWith s p = prefix p s"

text \<open>
  The text of a file, as the scanner holds it, is a JavaScript string: a list of UTF-16
  code units. \<open>to_text\<close> gives the code units of an ASCII literal. What
  \<open>buffer.toString('utf8')\<close> and \<open>readFileSync(path, 'utf8')\<close> do, decoding the bytes of
  a file to text, belongs to the runtime: the scanner's model takes it as a parameter
  \<open>decode\<close>. The bytes of a file are a \<^typ>\<open>string\<close>, one character a byte; the runtime's
  decoder gives U+FFFD for a byte sequence that is invalid or cut short, so the text need
  not have the length of the bytes.
\<close>

type_synonym jstring = "nat list"

definition to_text :: "string \<Rightarrow> jstring" where
  "to_text s = map of_char s"

definition str_includes :: "jstring \<Rightarrow> jstring \<Rightarrow> bool" where
  "str_includes s p = sublist p s"

text \<open>
  Node's \<open>path\<close> module on POSIX paths. A path is a string whose components are
  separated by \<open>/\<close>; \<open>path.join(dir, name)\<close> is used by the scanner only with a
  directory path and the name of one of its entries.
\<close>

definition slash :: char where
  "slash = CHR ''/''"

definition dot :: char where
  "dot = CHR ''.''"

fun split_sep :: "char \<Rightarrow> string \<Rightarrow> string \<Rightarrow> string list" where
  "split_sep sep acc [] = [rev acc]"
| "split_sep sep acc (c # cs) =
     (if c = sep then rev acc # split_sep sep [] cs else split_sep sep (c # acc) cs)"

text \<open>\<open>s.split('/')\<close>: never empty, so \<open>.pop()\<close> on it is its last element.\<close>

definition split_slash :: "string \<Rightarrow> string list" where
  "split_slash s = split_sep slash [] s"

definition split_pop :: "string \<Rightarrow> string" where
  "split_pop s = rev (takeWhile (\<lambda>c. c \<noteq> slash) (rev s))"

definition components :: "string \<Rightarrow> string list" where
  "components p = filter (\<lambda>c. c \<noteq> []) (split_slash p)"

fun join_sep :: "string list \<Rightarrow> string" where
  "join_sep [] = []"
| "join_sep [x] = x"
| "join_sep (x # y # ys) = x @ slash # join_sep (y # ys)"

definition path_join :: "string \<Rightarrow> string \<Rightarrow> string" where
  "path_join dir name = dir @ slash # name"

text \<open>\<open>path.basename\<close>: trailing separators are dropped, the last component is returned.\<close>

definition path_basename :: "string \<Rightarrow> string" where
  "path_basename p = split_pop (rev (dropWhile (\<lambda>c. c = slash) (rev p)))"

text \<open>
  \<open>path.extname\<close>: from the last dot of the base name to its end; empty when the base
  name has no dot, when its only dot is its first character, and for \<open>..\<close>.
\<close>

definition path_extname :: "string \<Rightarrow> string" where
  "path_extname p =
     (let b = path_basename p;
          r = rev b;
          e = takeWhile (\<lambda>c. c \<noteq> dot) r
      in case dropWhile (\<lambda>c. c \<noteq> dot) r of
           [] \<Rightarrow> []
         | d # stem \<Rightarrow>
             if stem = [] then []
             else if b = [dot, dot] then []
             else d # rev e)"

text \<open>
  \<open>path.relative(from, to)\<close> for absolute paths: the common leading components are
  dropped, each remaining component of \<open>from\<close> becomes \<open>..\<close>.
\<close>

fun strip_common :: "string list \<Rightarrow> string list \<Rightarrow> string list \<times> string list" where
  "strip_common (x # xs) (y # ys) =
     (if x = y then strip_common xs ys else (x # xs, y # ys))"
| "strip_common xs ys = (xs, ys)"

definition path_relative :: "string \<Rightarrow> string \<Rightarrow> string" where
  "path_relative from to =
     (case strip_common (components from) (components to) of
        (f, t) \<Rightarrow> join_sep (map (\<lambda>_. [dot, dot]) f @ t))"

text \<open>
  The value \<open>JSON.parse\<close> returns. \<open>JSON.parse\<close> itself belongs to the runtime: the
  scanner's model takes it as a parameter, a function from a text to a parsed value or
  a \<open>SyntaxError\<close>. Property access \<open>v.name\<close> on a parsed value gives the member of an
  object and \<open>undefined\<close> (\<open>None\<close>) otherwise; on \<open>null\<close> it throws, which the callers
  below write out.
\<close>

datatype json =
    JNull
  | JBool bool
  | JNum real
  | JStr string
  | JArr "json list"
  | JObj "(string \<times> json) list"

datatype error = ENOENT | ENOTDIR | EACCES | EISDIR | SyntaxError | TypeError

fun get_prop :: "json \<Rightarrow> string \<Rightarrow> json option" where
  "get_prop (JObj members) name = map_of members name"
| "get_prop _ name = None"

fun truthy :: "json option \<Rightarrow> bool" where
  "truthy None = False"
| "truthy (Some JNull) = False"
| "truthy (Some (JBool b)) = b"
| "truthy (Some (JNum n)) = (n \<noteq> 0)"
| "truthy (Some (JStr s)) = (s \<noteq> [])"
| "truthy (Some (JArr _)) = True"
| "truthy (Some (JObj _)) = True"

text \<open>\<open>v.a && v.a.b\<close>: the member \<open>b\<close> of the member \<open>a\<close>, when \<open>a\<close> is truthy.\<close>

definition member_truthy :: "json option \<Rightarrow> string \<Rightarrow> bool" where
  "member_truthy v name = (case v of None \<Rightarrow> False | Some o' \<Rightarrow> truthy (get_prop o' name))"

section \<open>The file system\<close>

text \<open>
  A directory listing is the list \<open>readdirSync\<close> returns, in its order, or the error it
  throws. A file carries what reading it gives: its bytes, or the error \<open>statSync\<close>,
  \<open>openSync\<close> or \<open>readFileSync\<close> throws. The size \<open>statSync\<close> reports is the number of
  bytes. An entry that is neither a file nor a directory (a link, a socket) is
  \<open>OtherNode\<close>.
\<close>

datatype fsnode =
    FileNode string "error + string"
  | DirNode string "error + fsnode list"
  | OtherNode string

fun node_name :: "fsnode \<Rightarrow> string" where
  "node_name (FileNode n _) = n"
| "node_name (DirNode n _) = n"
| "node_name (OtherNode n) = n"

text \<open>What \<open>path.join(dir, name)\<close> names for a literal name, as a file to read.\<close>

definition file_at :: "fsnode list \<Rightarrow> string \<Rightarrow> error + string" where
  "file_at entries name =
     (case find (\<lambda>n. node_name n = name) entries of
        None \<Rightarrow> Inl ENOENT
      | Some (FileNode _ d) \<Rightarrow> d
      | Some (DirNode _ _) \<Rightarrow> Inl EISDIR
      | Some (OtherNode _) \<Rightarrow> Inl EACCES)"

text \<open>\<open>fs.readFileSync(path, 'utf8')\<close>: the decoding of the file's bytes, or its error.\<close>

definition readFileSync :: "(string \<Rightarrow> jstring) \<Rightarrow> error + string \<Rightarrow> error + jstring" where
  "readFileSync decode file =
     (case file of Inl e \<Rightarrow> Inl e | Inr bytes \<Rightarrow> Inr (decode bytes))"

section \<open>The Importance Oracle\<close>

definition importantRootFiles :: "string list" where
  "importantRootFiles =
     [''readme.md'', ''license'', ''license.md'', ''license.txt'',
      ''package.json'', ''setup.py'', ''requirements.txt'', ''pyproject.toml'',
      ''cargo.toml'', ''gemfile'', ''composer.json'', ''go.mod'',
      ''dockerfile'', ''docker-compose.yml'', ''makefile'', ''cmakelists.txt'',
      ''.gitignore'', ''.travis.yml'', ''.github'', ''contributing.md'',
      ''changelog.md'', ''history.md'', ''code_of_conduct.md'', ''main.py'', ''app.py'']"

definition importantExtensions :: "string list" where
  "importantExtensions =
     [''.md'', ''.rst'', ''.txt'', ''.py'', ''.js'', ''.php'',
      ''.json'', ''.yaml'', ''.yml'', ''.toml'', ''.ini'', ''.cfg'',
      ''.py'', ''.js'', ''.ts'', ''.java'', ''.c'', ''.cpp'', ''.h'', ''.hpp'',
      ''.go'', ''.rb'', ''.php'', ''.cs'', ''.swift'', ''.kt'', ''.rs'',
      ''.html'', ''.css'']"

definition isLikelyImportantFile :: "string \<Rightarrow> bool" where
  "isLikelyImportantFile filePath =
     (let fileName = toLowerCase (path_basename filePath);
          ext = toLowerCase (path_extname filePath)
      in if fileName \<in> set importantRootFiles then True
         else if ext \<in> set importantExtensions then True
         else if (startsWith fileName ''main.'' \<or> startsWith fileName ''index.'')
                 \<and> ext \<in> set importantExtensions then True
         else False)"

definition unimportantDirs :: "string list" where
  "unimportantDirs =
     [''node_modules'', ''.git'', ''.github'', ''.vscode'', ''.idea'',
      ''venv'', ''env'', ''.env'', ''__pycache__'', ''.pytest_cache'',
      ''build'', ''dist'', ''out'', ''target'', ''bin'', ''obj'',
      ''coverage'', ''logs'', ''tmp'', ''temp'', ''cache'']"

definition importantDirs :: "string list" where
  "importantDirs =
     [''src'', ''lib'', ''app'', ''api'', ''core'', ''docs'',
      ''examples'', ''tests'', ''scripts'', ''config'', ''public'',
      ''assets'', ''resources'', ''templates'', ''views'', ''components'']"

definition isLikelyImportantDirectory :: "string \<Rightarrow> bool" where
  "isLikelyImportantDirectory dirName =
     (let lowercaseName = toLowerCase dirName
      in if lowercaseName \<in> set unimportantDirs then False
         else if lowercaseName \<in> set importantDirs then True
         else True)"

definition getSourceFileExtensions :: "string \<Rightarrow> string list \<Rightarrow> string list" where
  "getSourceFileExtensions projectType languages =
     (if projectType = ''node'' then
        (if ''react'' \<in> set languages then [''.jsx'', ''.tsx'', ''.js'', ''.ts'']
         else [''.js'', ''.jsx'', ''.ts'', ''.tsx''])
      else if projectType = ''python'' then [''.py'']
      else if projectType = ''java'' then [''.java'']
      else if projectType = ''rust'' then [''.rs'']
      else if projectType = ''go'' then [''.go'']
      else if projectType = ''ruby'' then [''.rb'']
      else if projectType = ''php'' then [''.php'']
      else [''.js'', ''.py'', ''.java'', ''.c'', ''.cpp'', ''.h'', ''.go'', ''.rb'', ''.php'',
            ''.cs''])"

section \<open>The Budget Policy\<close>

definition calculateMaxFiles :: "string \<Rightarrow> nat" where
  "calculateMaxFiles projectType =
     (let baseMax = 50
      in if projectType = ''node'' then baseMax + 20
         else if projectType = ''python'' then baseMax + 10
         else if projectType = ''java'' then baseMax + 15
         else if projectType = ''rust'' then baseMax + 5
         else if projectType = ''go'' then baseMax + 10
         else baseMax)"

definition truncation_marker :: jstring where
  "truncation_marker = 10 # to_text ''... [file truncated due to size]''"

text \<open>
  The read both branches of the walker share: \<open>statSync\<close>, then either the first
  \<open>maxFileSize\<close> bytes, decoded, and the marker, or the whole file, decoded. An error of
  any of the calls is the error of the read.
\<close>

definition read_limited :: "(string \<Rightarrow> jstring) \<Rightarrow> nat \<Rightarrow> error + string \<Rightarrow> error + jstring" where
  "read_limited decode maxFileSize file =
     (case file of
        Inl e \<Rightarrow> Inl e
      | Inr bytes \<Rightarrow>
          if length bytes > maxFileSize
          then Inr (decode (take maxFileSize bytes) @ truncation_marker)
          else readFileSync decode (Inr bytes))"

section \<open>The scan result\<close>

text \<open>
  \<open>fileContents\<close> is a JavaScript object: its keys in insertion order, a stored key
  keeping its place when it is assigned again. Its values are the text of a file or, under
  \<open>package.json\<close>, the parsed manifest.
\<close>

datatype content = Text jstring | Parsed json

record scan_result =
  files :: "string list"
  directories :: "string list"
  fileContents :: "(string \<times> content) list"
  projectType :: string
  mainLanguages :: "string list"

definition object_keys :: "(string \<times> content) list \<Rightarrow> string list" where
  "object_keys obj = map fst obj"

definition set_content :: "string \<Rightarrow> content \<Rightarrow> scan_result \<Rightarrow> scan_result" where
  "set_content key v result =
     result\<lparr>fileContents := AList.update key v (fileContents result)\<rparr>"

definition push_file :: "string \<Rightarrow> scan_result \<Rightarrow> scan_result" where
  "push_file p result = result\<lparr>files := files result @ [p]\<rparr>"

definition push_directory :: "string \<Rightarrow> scan_result \<Rightarrow> scan_result" where
  "push_directory p result = result\<lparr>directories := directories result @ [p]\<rparr>"

definition push_language :: "string \<Rightarrow> scan_result \<Rightarrow> scan_result" where
  "push_language l result = result\<lparr>mainLanguages := mainLanguages result @ [l]\<rparr>"

definition set_type :: "string \<Rightarrow> string \<Rightarrow> scan_result \<Rightarrow> scan_result" where
  "set_type t l result = push_language l (result\<lparr>projectType := t\<rparr>)"

definition initial_result :: scan_result where
  "initial_result =
     \<lparr>files = [], directories = [], fileContents = [], projectType = ''unknown'',
      mainLanguages = []\<rparr>"

section \<open>The Classifier\<close>

text \<open>
  What \<open>identifyProjectType\<close> does with a parsed \<open>package.json\<close>: the manifest is
  stored, then its dependency groups are inspected. Reading a member of \<open>null\<close> throws;
  the surrounding \<open>try\<close> catches it after the manifest has been stored.
\<close>

definition framework_tags :: "(string \<times> string) list" where
  "framework_tags =
     [(''react'', ''react''), (''vue'', ''vue''), (''angular'', ''angular''),
      (''express'', ''express''), (''next'', ''nextjs'')]"

definition inspect_manifest :: "json \<Rightarrow> scan_result \<Rightarrow> scan_result" where
  "inspect_manifest packageJson result =
     (let r1 = set_content ''package.json'' (Parsed packageJson) result
      in if packageJson = JNull then r1
         else
           let devDependencies = get_prop packageJson ''devDependencies'';
               dependencies = get_prop packageJson ''dependencies'';
               r2 = (if truthy devDependencies \<and>
                        (member_truthy devDependencies ''typescript'' \<or>
                         truthy dependencies \<and> member_truthy dependencies ''typescript'')
                     then push_language ''typescript'' r1 else r1)
           in if truthy dependencies
              then foldl (\<lambda>r (dep, tag).
                            if member_truthy dependencies dep then push_language tag r else r)
                     r2 framework_tags
              else r2)"

text \<open>
  A file captured under a canonical key: \<open>read\<close> is what \<open>readFileSync\<close> gave; the read
  is wrapped in its own \<open>try\<close>, an error leaves the result as it is.
\<close>

definition capture :: "string \<Rightarrow> error + jstring \<Rightarrow> scan_result \<Rightarrow> scan_result" where
  "capture key read result =
     (case read of Inl e \<Rightarrow> result | Inr t \<Rightarrow> set_content key (Text t) result)"

text \<open>One turn of the loop over the root's entries; \<open>entries\<close> is the root's listing.\<close>

fun identify_entry ::
  "(string \<Rightarrow> jstring) \<Rightarrow> (jstring \<Rightarrow> error + json) \<Rightarrow> fsnode list \<Rightarrow> scan_result \<Rightarrow> fsnode
     \<Rightarrow> scan_result" where
  "identify_entry decode JSON_parse entries result (FileNode name file) =
     (let fileName = toLowerCase name
      in if fileName = ''package.json'' then
           (let r1 = set_type ''node'' ''javascript'' result
            in case readFileSync decode (file_at entries ''package.json'') of
                 Inl e \<Rightarrow> r1
               | Inr t \<Rightarrow>
                   (case JSON_parse t of
                      Inl e \<Rightarrow> r1
                    | Inr packageJson \<Rightarrow> inspect_manifest packageJson r1))
         else if fileName = ''requirements.txt'' \<or> fileName = ''setup.py''
                 \<or> fileName = ''pyproject.toml'' then
           (let r1 = set_type ''python'' ''python'' result
            in if fileName = ''requirements.txt''
               then capture ''requirements.txt''
                      (readFileSync decode (file_at entries ''requirements.txt'')) r1
               else r1)
         else if fileName = ''pom.xml'' then set_type ''java'' ''java'' result
         else if fileName = ''cargo.toml'' then set_type ''rust'' ''rust'' result
         else if fileName = ''go.mod'' then set_type ''go'' ''go'' result
         else if fileName = ''gemfile'' then set_type ''ruby'' ''ruby'' result
         else if fileName = ''composer.json'' then set_type ''php'' ''php'' result
         else if fileName = ''dockerfile'' \<or> fileName = ''docker-compose.yml''
           then push_language ''docker'' result
         else if fileName = ''readme.md''
           then capture ''README.md'' (readFileSync decode file) result
         else if startsWith fileName ''license''
           then capture ''LICENSE'' (readFileSync decode file) result
         else result)"
| "identify_entry decode JSON_parse entries result (DirNode name listing) = result"
| "identify_entry decode JSON_parse entries result (OtherNode name) = result"

text \<open>An error of \<open>readdirSync\<close> on the root is caught and logged.\<close>

definition identifyProjectType ::
  "(string \<Rightarrow> jstring) \<Rightarrow> (jstring \<Rightarrow> error + json) \<Rightarrow> error + fsnode list \<Rightarrow> scan_result
     \<Rightarrow> scan_result" where
  "identifyProjectType decode JSON_parse listing result =
     (case listing of
        Inl e \<Rightarrow> result
      | Inr entries \<Rightarrow> foldl (identify_entry decode JSON_parse entries) result entries)"

section \<open>The Tree Walker\<close>

definition text_extensions :: "string list" where
  "text_extensions =
     [''.md'', ''.txt'', ''.json'', ''.js'', ''.jsx'', ''.ts'', ''.tsx'', ''.py'', ''.java'',
      ''.c'', ''.cpp'', ''.h'', ''.go'', ''.rb'', ''.php'', ''.cs'', ''.html'', ''.css'',
      ''.yml'', ''.yaml'', ''.toml'', ''.ini'', ''.cfg'']"

definition is_text_file :: "string \<Rightarrow> bool" where
  "is_text_file fileName =
     (toLowerCase (path_extname fileName) \<in> set text_extensions
      \<or> toLowerCase fileName = ''dockerfile''
      \<or> toLowerCase fileName = ''makefile''
      \<or> toLowerCase fileName = ''license'')"

definition important_ceiling :: nat where
  "important_ceiling = 50 * 1024"

definition source_ceiling :: nat where
  "source_ceiling = 30 * 1024"

text \<open>
  The body of the walker's loop for a file entry. \<open>rootPath\<close> is the directory being
  listed (the function's first parameter), \<open>sourceExtensions\<close> and \<open>maxFiles\<close> are the
  values computed before the loop.
\<close>

definition scan_file ::
  "(string \<Rightarrow> jstring) \<Rightarrow> string \<Rightarrow> string list \<Rightarrow> nat \<Rightarrow> string list \<Rightarrow> string
     \<Rightarrow> error + string \<Rightarrow> scan_result \<Rightarrow> scan_result" where
  "scan_file decode rootPath sourceExtensions maxFiles filesToIgnore fileName file result =
     (let entryPath = path_join rootPath fileName;
          relativePath = path_relative rootPath entryPath
      in if fileName \<in> set filesToIgnore then result
         else if length (object_keys (fileContents result)) \<ge> maxFiles then
           (if isLikelyImportantFile entryPath then push_file relativePath result else result)
         else if isLikelyImportantFile entryPath then
           (let r1 = push_file relativePath result
            in if is_text_file fileName then
                 (case read_limited decode important_ceiling file of
                    Inl e \<Rightarrow> r1
                  | Inr t \<Rightarrow> set_content relativePath (Text t) r1)
               else r1)
         else if toLowerCase (path_extname fileName) \<in> set sourceExtensions then
           (let r1 = push_file relativePath result
            in case read_limited decode source_ceiling file of
                 Inl e \<Rightarrow> r1
               | Inr t \<Rightarrow> set_content relativePath (Text t) r1)
         else result)"

text \<open>
  \<open>scanImportantFiles\<close>: the depth check, the listing (an error ends this call only), then
  the loop \<open>scan_entries\<close> over the entries. The recursive call receives the
  subdirectory's path as its \<open>rootPath\<close>.
\<close>

function (sequential) scanImportantFiles ::
  "(string \<Rightarrow> jstring) \<Rightarrow> string \<Rightarrow> error + fsnode list \<Rightarrow> scan_result \<Rightarrow> string list
     \<Rightarrow> string list \<Rightarrow> nat \<Rightarrow> scan_result"
and scan_entries ::
  "(string \<Rightarrow> jstring) \<Rightarrow> string \<Rightarrow> string list \<Rightarrow> nat \<Rightarrow> fsnode list \<Rightarrow> scan_result
     \<Rightarrow> string list \<Rightarrow> string list \<Rightarrow> nat \<Rightarrow> scan_result" where
  "scanImportantFiles decode rootPath (Inl e) result dirsToIgnore filesToIgnore depth = result"
| "scanImportantFiles decode rootPath (Inr entries) result dirsToIgnore filesToIgnore depth =
     (if depth > 5 then result
      else scan_entries decode rootPath
             (getSourceFileExtensions (projectType result) (mainLanguages result))
             (calculateMaxFiles (projectType result))
             entries result dirsToIgnore filesToIgnore depth)"
| "scan_entries decode rootPath sourceExtensions maxFiles [] result dirsToIgnore filesToIgnore
       depth =
     result"
| "scan_entries decode rootPath sourceExtensions maxFiles (DirNode dirName listing # rest)
       result dirsToIgnore filesToIgnore depth =
     scan_entries decode rootPath sourceExtensions maxFiles rest
       (if dirName \<in> set dirsToIgnore then result
        else if isLikelyImportantDirectory dirName then
          scanImportantFiles decode (path_join rootPath dirName) listing
            (push_directory (path_relative rootPath (path_join rootPath dirName)) result)
            dirsToIgnore filesToIgnore (depth + 1)
        else result)
       dirsToIgnore filesToIgnore depth"
| "scan_entries decode rootPath sourceExtensions maxFiles (FileNode fileName file # rest)
       result dirsToIgnore filesToIgnore depth =
     scan_entries decode rootPath sourceExtensions maxFiles rest
       (scan_file decode rootPath sourceExtensions maxFiles filesToIgnore fileName file result)
       dirsToIgnore filesToIgnore depth"
| "scan_entries decode rootPath sourceExtensions maxFiles (OtherNode n # rest) result
       dirsToIgnore filesToIgnore depth =
     scan_entries decode rootPath sourceExtensions maxFiles rest result dirsToIgnore
       filesToIgnore depth"
  by pat_completeness auto

termination
  by (relation "measure (\<lambda>x. case x of
          Inl (decode, rootPath, listing, rest) \<Rightarrow>
            (case listing of Inl e \<Rightarrow> 0 | Inr entries \<Rightarrow> Suc (size_list size entries))
        | Inr (decode, rootPath, sourceExtensions, maxFiles, entries, rest) \<Rightarrow>
            size_list size entries)") (auto split: sum.splits)

section \<open>The entry point\<close>

definition defaultIgnoreDirs :: "string list" where
  "defaultIgnoreDirs = [''.git'', ''node_modules'', ''.vscode'', ''dist'', ''build'', ''out'']"

definition defaultIgnoreFiles :: "string list" where
  "defaultIgnoreFiles = [''.DS_Store'', ''.gitignore'', ''package-lock.json'', ''yarn.lock'']"

text \<open>
  \<open>scanWorkspace\<close> returns its result on every path: both passes catch what they throw. The
  model's result type records that: \<open>Inl\<close> would be an error surfaced to the caller.
\<close>

definition scanWorkspace ::
  "(string \<Rightarrow> jstring) \<Rightarrow> (jstring \<Rightarrow> error + json) \<Rightarrow> string \<Rightarrow> error + fsnode list
     \<Rightarrow> string list \<Rightarrow> string list \<Rightarrow> error + scan_result" where
  "scanWorkspace decode JSON_parse rootPath listing ignoreDirs ignoreFiles =
     (let dirsToIgnore = defaultIgnoreDirs @ ignoreDirs;
          filesToIgnore = defaultIgnoreFiles @ ignoreFiles;
          r1 = identifyProjectType decode JSON_parse listing initial_result;
          r2 = scanImportantFiles decode rootPath listing r1 dirsToIgnore filesToIgnore 0
      in Inr r2)"

section \<open>The Sample Selector\<close>

text \<open>
  Every regular expression of the pattern tables has one of two shapes, both with the
  flag \<open>i\<close>: \<open>/^stem\.(a|b)$/i\<close>, written \<open>Pattern True stem [a, b]\<close>, and
  \<open>/stem\.(a|b)$/i\<close>, written \<open>Pattern False stem [a, b]\<close>. The first matches a string
  that is \<open>stem.a\<close> or \<open>stem.b\<close> up to the case of its letters, the second a string that
  ends with one of them.
\<close>

datatype pattern = Pattern bool string "string list"

fun pattern_words :: "pattern \<Rightarrow> string list" where
  "pattern_words (Pattern anchored stem alts) =
     map (\<lambda>a. toLowerCase (stem @ dot # a)) alts"

fun anchored :: "pattern \<Rightarrow> bool" where
  "anchored (Pattern a stem alts) = a"

definition pattern_test :: "pattern \<Rightarrow> string \<Rightarrow> bool" where
  "pattern_test pat s =
     (if anchored pat then toLowerCase s \<in> set (pattern_words pat)
      else list_ex (\<lambda>w. suffix w (toLowerCase s)) (pattern_words pat))"

definition getPriorityFilesForProjectType :: "string \<Rightarrow> string list \<Rightarrow> pattern list" where
  "getPriorityFilesForProjectType kind languages =
     (if kind = ''node'' then
        [Pattern True ''index'' [''js'', ''ts''], Pattern True ''main'' [''js'', ''ts''],
         Pattern True ''app'' [''js'', ''ts'']]
        @ (if ''react'' \<in> set languages
           then [Pattern True ''app'' [''jsx'', ''tsx''], Pattern True ''index'' [''jsx'', ''tsx'']]
           else [])
      else if kind = ''python'' then
        [Pattern True ''main'' [''py''], Pattern True ''app'' [''py''],
         Pattern True ''__init__'' [''py'']]
      else if kind = ''java'' then
        [Pattern True ''main'' [''java''], Pattern True ''application'' [''java'']]
      else if kind = ''rust'' then
        [Pattern True ''main'' [''rs''], Pattern True ''lib'' [''rs'']]
      else if kind = ''go'' then [Pattern True ''main'' [''go'']]
      else if kind = ''ruby'' then
        [Pattern True ''main'' [''rb''], Pattern True ''application'' [''rb'']]
      else if kind = ''php'' then [Pattern True ''index'' [''php'']]
      else [])"

definition getMainFilePatterns :: "string \<Rightarrow> string list \<Rightarrow> pattern list" where
  "getMainFilePatterns kind languages =
     (if kind = ''node'' then
        [Pattern False ''index'' [''js'', ''ts''], Pattern False ''main'' [''js'', ''ts''],
         Pattern False ''app'' [''js'', ''ts'']]
        @ (if ''react'' \<in> set languages
           then [Pattern False ''App'' [''js'', ''tsx''], Pattern False ''index'' [''js'', ''tsx'']]
           else [])
      else if kind = ''python'' then
        [Pattern False ''main'' [''py''], Pattern False ''__init__'' [''py''],
         Pattern False ''app'' [''py'']]
      else if kind = ''java'' then
        [Pattern False ''Main'' [''java''], Pattern False ''Application'' [''java'']]
      else if kind = ''rust'' then
        [Pattern False ''main'' [''rs''], Pattern False ''lib'' [''rs'']]
      else if kind = ''go'' then [Pattern False ''main'' [''go'']]
      else if kind = ''ruby'' then
        [Pattern False ''main'' [''rb''], Pattern False ''application'' [''rb'']]
      else if kind = ''php'' then [Pattern False ''index'' [''php'']]
      else [])
     @ [Pattern False ''README'' [''md''], Pattern False ''CONTRIBUTING'' [''md'']]"

definition maxSamples :: nat where
  "maxSamples = 10"

text \<open>
  The selector builds one string, \<open>samples\<close>, and counts the excerpts in \<open>sampleCount\<close>.
  The model keeps beside them the paths of the excerpts appended so far, in order
  (\<open>chosen\<close>): the excerpt sequence the string is the rendering of. \<open>toStr\<close> is the
  runtime's conversion of a parsed value to a string inside a template literal. The
  string is a text, as the contents it embeds are.
\<close>

record selection =
  samples :: jstring
  sampleCount :: nat
  chosen :: "string list"

definition newline :: nat where
  "newline = 10"

definition header :: "string \<Rightarrow> jstring" where
  "header filePath = to_text (''Source code ('' @ filePath @ ''):'')"

definition render :: "(json \<Rightarrow> jstring) \<Rightarrow> (string \<times> content) list \<Rightarrow> string \<Rightarrow> jstring" where
  "render toStr obj key =
     (case map_of obj key of
        None \<Rightarrow> to_text ''undefined''
      | Some (Text t) \<Rightarrow> t
      | Some (Parsed v) \<Rightarrow> toStr v)"

definition excerpt :: "(json \<Rightarrow> jstring) \<Rightarrow> (string \<times> content) list \<Rightarrow> string \<Rightarrow> jstring" where
  "excerpt toStr obj filePath =
     header filePath @ newline # to_text ''```'' @ newline # render toStr obj filePath
       @ newline # to_text ''```'' @ [newline, newline]"

definition add_sample ::
  "(json \<Rightarrow> jstring) \<Rightarrow> (string \<times> content) list \<Rightarrow> string \<Rightarrow> selection \<Rightarrow> selection" where
  "add_sample toStr obj filePath st =
     \<lparr>samples = samples st @ excerpt toStr obj filePath,
      sampleCount = sampleCount st + 1,
      chosen = chosen st @ [filePath]\<rparr>"

text \<open>
  The inner loop over \<open>Object.keys(workspaceData.fileContents)\<close>, shared by the three
  passes: \<open>skip\<close> says whether the pass has the line that skips a path whose header
  \<open>samples\<close> already includes, \<open>matches\<close> is the pass's test of a path.
\<close>

fun sample_loop ::
  "bool \<Rightarrow> (string \<Rightarrow> bool) \<Rightarrow> (json \<Rightarrow> jstring) \<Rightarrow> (string \<times> content) list \<Rightarrow> string list
     \<Rightarrow> selection \<Rightarrow> selection" where
  "sample_loop skip matches toStr obj [] st = st"
| "sample_loop skip matches toStr obj (filePath # rest) st =
     (if sampleCount st \<ge> maxSamples then st
      else if skip \<and> str_includes (samples st) (header filePath)
        then sample_loop skip matches toStr obj rest st
      else if matches filePath
        then sample_loop skip matches toStr obj rest (add_sample toStr obj filePath st)
      else sample_loop skip matches toStr obj rest st)"

text \<open>The outer loop over a pattern table.\<close>

fun pattern_loop ::
  "bool \<Rightarrow> (pattern \<Rightarrow> string \<Rightarrow> bool) \<Rightarrow> (json \<Rightarrow> jstring) \<Rightarrow> (string \<times> content) list
     \<Rightarrow> pattern list \<Rightarrow> selection \<Rightarrow> selection" where
  "pattern_loop skip test toStr obj [] st = st"
| "pattern_loop skip test toStr obj (pat # pats) st =
     (if sampleCount st \<ge> maxSamples then st
      else pattern_loop skip test toStr obj pats
             (sample_loop skip (test pat) toStr obj (object_keys obj) st))"

definition priority_test :: "pattern \<Rightarrow> string \<Rightarrow> bool" where
  "priority_test priorityPattern filePath =
     pattern_test priorityPattern (toLowerCase (split_pop filePath))"

definition select_samples :: "(json \<Rightarrow> jstring) \<Rightarrow> scan_result \<Rightarrow> selection" where
  "select_samples toStr workspaceData =
     (let obj = fileContents workspaceData;
          mainFilePatterns =
            getMainFilePatterns (projectType workspaceData) (mainLanguages workspaceData);
          priorityFiles =
            getPriorityFilesForProjectType (projectType workspaceData)
              (mainLanguages workspaceData);
          s0 = \<lparr>samples = [], sampleCount = 0, chosen = []\<rparr>;
          s1 = pattern_loop False priority_test toStr obj priorityFiles s0;
          s2 = pattern_loop True pattern_test toStr obj mainFilePatterns s1
      in if sampleCount s2 < maxSamples then
           sample_loop True
             (\<lambda>filePath. toLowerCase (path_extname filePath)
                  \<in> set (getSourceFileExtensions (projectType workspaceData)
                           (mainLanguages workspaceData)))
             toStr obj (object_keys obj) s2
         else s2)"

definition getSourceCodeSamples :: "(json \<Rightarrow> jstring) \<Rightarrow> scan_result \<Rightarrow> jstring" where
  "getSourceCodeSamples toStr workspaceData = samples (select_samples toStr workspaceData)"

definition sample_paths :: "(json \<Rightarrow> jstring) \<Rightarrow> scan_result \<Rightarrow> string list" where
  "sample_paths toStr workspaceData = chosen (select_samples toStr workspaceData)"

definition is_priority :: "scan_result \<Rightarrow> string \<Rightarrow> bool" where
  "is_priority workspaceData filePath =
     list_ex (\<lambda>pat. priority_test pat filePath)
       (getPriorityFilesForProjectType (projectType workspaceData)
          (mainLanguages workspaceData))"

section \<open>Example workspaces\<close>

text \<open>
  The files of the examples below hold ASCII bytes only, and the decoding of ASCII bytes
  is the code units of the same values: \<open>to_text\<close> is the decoder at the examples. Their
  \<open>JSON.parse\<close> knows one manifest text and rejects every other text.
\<close>

definition manifest_parser :: "string \<Rightarrow> json \<Rightarrow> jstring \<Rightarrow> error + json" where
  "manifest_parser manifest v s = (if s = to_text manifest then Inr v else Inl SyntaxError)"

text \<open>A manifest with TypeScript among the development dependencies only.\<close>

definition dev_manifest_text :: string where
  \<open>dev_manifest_text = ''{"devDependencies":{"typescript":"^5.0.0"}}''\<close>

definition dev_manifest :: json where
  "dev_manifest = JObj [(''devDependencies'', JObj [(''typescript'', JStr ''^5.0.0'')])]"

text \<open>A manifest with TypeScript among the runtime dependencies only.\<close>

definition runtime_manifest_text :: string where
  \<open>runtime_manifest_text = ''{"dependencies":{"typescript":"^5.0.0"}}''\<close>

definition runtime_manifest :: json where
  "runtime_manifest = JObj [(''dependencies'', JObj [(''typescript'', JStr ''^5.0.0'')])]"

text \<open>\<open>/ws\<close> holding \<open>package.json\<close> and \<open>src/index.ts\<close>.\<close>

definition typescript_workspace :: "fsnode list" where
  "typescript_workspace =
     [FileNode ''package.json'' (Inr dev_manifest_text),
      DirNode ''src'' (Inr [FileNode ''index.ts'' (Inr ''export {};'')])]"

text \<open>\<open>/ws\<close> holding \<open>a/index.js\<close> and \<open>b/index.js\<close>.\<close>

definition twin_workspace :: "fsnode list" where
  "twin_workspace =
     [DirNode ''a'' (Inr [FileNode ''index.js'' (Inr ''1'')]),
      DirNode ''b'' (Inr [FileNode ''index.js'' (Inr ''2'')])]"

text \<open>\<open>/ws\<close> holding only \<open>package.json\<close>, with the runtime-only manifest.\<close>

definition runtime_workspace :: "fsnode list" where
  "runtime_workspace = [FileNode ''package.json'' (Inr runtime_manifest_text)]"

text \<open>\<open>/ws\<close> holding a Node manifest and a Python requirements file, in both orders.\<close>

definition node_then_python :: "fsnode list" where
  "node_then_python =
     [FileNode ''package.json'' (Inr ''{}''), FileNode ''requirements.txt'' (Inr ''flask'')]"

definition python_then_node :: "fsnode list" where
  "python_then_node =
     [FileNode ''requirements.txt'' (Inr ''flask''), FileNode ''package.json'' (Inr ''{}'')]"

text \<open>\<open>/ws\<close> holding only \<open>license.txt\<close>.\<close>

definition license_workspace :: "fsnode list" where
  "license_workspace = [FileNode ''license.txt'' (Inr ''MIT'')]"

section \<open>Notions the properties are stated with\<close>

text \<open>
  The type a root file's name stands for in the classifier's chain of comparisons, and the
  types of the marker files of a listing, in the listing's order.
\<close>

definition marker_type :: "string \<Rightarrow> string option" where
  "marker_type name =
     (let fileName = toLowerCase name
      in if fileName = ''package.json'' then Some ''node''
         else if fileName = ''requirements.txt'' \<or> fileName = ''setup.py''
                 \<or> fileName = ''pyproject.toml'' then Some ''python''
         else if fileName = ''pom.xml'' then Some ''java''
         else if fileName = ''cargo.toml'' then Some ''rust''
         else if fileName = ''go.mod'' then Some ''go''
         else if fileName = ''gemfile'' then Some ''ruby''
         else if fileName = ''composer.json'' then Some ''php''
         else None)"

fun entry_marker :: "fsnode \<Rightarrow> string option" where
  "entry_marker (FileNode name file) = marker_type name"
| "entry_marker (DirNode name listing) = None"
| "entry_marker (OtherNode name) = None"

definition marker_types :: "fsnode list \<Rightarrow> string list" where
  "marker_types entries = List.map_filter entry_marker entries"

definition root_entries :: "error + fsnode list \<Rightarrow> fsnode list" where
  "root_entries listing = (case listing of Inl e \<Rightarrow> [] | Inr entries \<Rightarrow> entries)"

text \<open>The keys the classifier stores under, whatever the name of the file it read.\<close>

definition canonical_keys :: "string list" where
  "canonical_keys = [''package.json'', ''requirements.txt'', ''README.md'', ''LICENSE'']"


text \<open>Every key is a recorded file or a canonical key.\<close>

definition keys_accounted :: "scan_result \<Rightarrow> bool" where
  "keys_accounted r =
     list_all (\<lambda>k. k \<in> set (files r) \<or> k \<in> set canonical_keys)
       (object_keys (fileContents r))"

text \<open>
  What holds of the result when the classifier hands it to the walker: no file recorded,
  and distinct keys, all canonical.
\<close>

definition classified :: "scan_result \<Rightarrow> bool" where
  "classified r \<longleftrightarrow>
     files r = [] \<and> distinct (object_keys (fileContents r))
     \<and> set (object_keys (fileContents r)) \<subseteq> set canonical_keys"

text \<open>The number of keys is within the quota of the project type.\<close>

definition within_quota :: "scan_result \<Rightarrow> bool" where
  "within_quota r \<longleftrightarrow>
     length (object_keys (fileContents r)) \<le> calculateMaxFiles (projectType r)"

text \<open>
  A Node result whose contents hold 70 keys, the quota of the type; and a readme one byte
  larger than the ceiling for important files.
\<close>

definition quota_workspace :: scan_result where
  "quota_workspace =
     \<lparr>files = [], directories = [],
      fileContents = map (\<lambda>i. (replicate i (CHR ''a'') @ ''.js'', Text [])) [0..<70],
      projectType = ''node'', mainLanguages = [''javascript'']\<rparr>"



text \<open>Every text among the contents is the decoding of a whole file of \<open>entries\<close>.\<close>

definition whole_texts :: "(string \<Rightarrow> jstring) \<Rightarrow> fsnode list \<Rightarrow> scan_result \<Rightarrow> bool" where
  "whole_texts decode entries r \<longleftrightarrow>
     (\<forall>k t. map_of (fileContents r) k = Some (Text t) \<longrightarrow>
        (\<exists>n bytes. FileNode n (Inr bytes) \<in> set entries \<and> t = decode bytes))"

text \<open>
  A selection is well formed when its count is the number of chosen paths, at most
  \<open>maxSamples\<close>, no path is chosen twice, and \<open>samples\<close> is the excerpts of the chosen
  paths, in order.
\<close>

definition well_formed ::
  "(json \<Rightarrow> jstring) \<Rightarrow> (string \<times> content) list \<Rightarrow> selection \<Rightarrow> bool" where
  "well_formed toStr obj st \<longleftrightarrow>
     sampleCount st = length (chosen st) \<and> length (chosen st) \<le> maxSamples
     \<and> distinct (chosen st)
     \<and> samples st = concat (map (excerpt toStr obj) (chosen st))"

text \<open>
  A conversion that renders every parsed value as an object, and the contents of a small
  Node project, for the selector.
\<close>

definition object_to_string :: "json \<Rightarrow> jstring" where
  "object_to_string v = to_text ''[object Object]''"

definition sample_workspace :: scan_result where
  "sample_workspace =
     \<lparr>files = [], directories = [],
      fileContents =
        [(''README.md'', Text (to_text ''# demo'')), (''package.json'', Parsed (JObj [])),
         (''util.js'', Text (to_text ''u'')), (''src/App.js'', Text (to_text ''a'')),
         (''index.ts'', Text (to_text ''i'')), (''notes.py'', Text (to_text ''p''))],
      projectType = ''node'', mainLanguages = [''javascript'']\<rparr>"

section \<open>What each step leaves alone\<close>

lemma frame_push_file [simp]:
  "directories (push_file p r) = directories r"
  "fileContents (push_file p r) = fileContents r"
  "projectType (push_file p r) = projectType r"
  "mainLanguages (push_file p r) = mainLanguages r"
  "files (push_file p r) = files r @ [p]"
  by (simp_all add: push_file_def)

lemma frame_push_directory [simp]:
  "directories (push_directory p r) = directories r @ [p]"
  "fileContents (push_directory p r) = fileContents r"
  "projectType (push_directory p r) = projectType r"
  "mainLanguages (push_directory p r) = mainLanguages r"
  "files (push_directory p r) = files r"
  by (simp_all add: push_directory_def)

lemma frame_push_language [simp]:
  "directories (push_language p r) = directories r"
  "fileContents (push_language p r) = fileContents r"
  "projectType (push_language p r) = projectType r"
  "mainLanguages (push_language p r) = mainLanguages r @ [p]"
  "files (push_language p r) = files r"
  by (simp_all add: push_language_def)

lemma frame_set_content [simp]:
  "directories (set_content k v r) = directories r"
  "fileContents (set_content k v r) = AList.update k v (fileContents r)"
  "projectType (set_content k v r) = projectType r"
  "mainLanguages (set_content k v r) = mainLanguages r"
  "files (set_content k v r) = files r"
  by (simp_all add: set_content_def)

lemma frame_set_type [simp]:
  "directories (set_type t l r) = directories r"
  "fileContents (set_type t l r) = fileContents r"
  "projectType (set_type t l r) = t"
  "mainLanguages (set_type t l r) = mainLanguages r @ [l]"
  "files (set_type t l r) = files r"
  by (simp_all add: set_type_def)

lemma frame_capture [simp]:
  "directories (capture k f r) = directories r"
  "projectType (capture k f r) = projectType r"
  "mainLanguages (capture k f r) = mainLanguages r"
  "files (capture k f r) = files r"
  by (simp_all add: capture_def split: sum.splits)

lemma frame_tags:
  "directories (foldl (\<lambda>r (dep, tag). if c dep then push_language tag r else r) r0 tags) = directories r0
   \<and> projectType (foldl (\<lambda>r (dep, tag). if c dep then push_language tag r else r) r0 tags) = projectType r0
   \<and> files (foldl (\<lambda>r (dep, tag). if c dep then push_language tag r else r) r0 tags) = files r0
   \<and> fileContents (foldl (\<lambda>r (dep, tag). if c dep then push_language tag r else r) r0 tags) = fileContents r0"
  by (induction tags arbitrary: r0) (auto split: prod.splits)

lemma frame_inspect_manifest [simp]:
  "directories (inspect_manifest j r) = directories r"
  "projectType (inspect_manifest j r) = projectType r"
  "files (inspect_manifest j r) = files r"
  "fileContents (inspect_manifest j r) = AList.update ''package.json'' (Parsed j) (fileContents r)"
  by (simp_all add: inspect_manifest_def Let_def frame_tags)

lemma scan_file_frame [simp]:
  "projectType (scan_file decode rp se mf fi n f r) = projectType r"
  "mainLanguages (scan_file decode rp se mf fi n f r) = mainLanguages r"
  "directories (scan_file decode rp se mf fi n f r) = directories r"
  by (simp_all add: scan_file_def Let_def split: sum.splits)

lemma walker_frame:
  "projectType (scanImportantFiles decode rp listing r di fi d) = projectType r
   \<and> mainLanguages (scanImportantFiles decode rp listing r di fi d) = mainLanguages r"
  "projectType (scan_entries decode rp se mf es r di fi d) = projectType r
   \<and> mainLanguages (scan_entries decode rp se mf es r di fi d) = mainLanguages r"
  by (induction decode rp listing r di fi d and decode rp se mf es r di fi d
        rule: scanImportantFiles_scan_entries.induct) simp_all

lemma scanWorkspace_eq:
  "scanWorkspace decode P rootPath listing ignoreDirs ignoreFiles =
     Inr (scanImportantFiles decode rootPath listing (identifyProjectType decode P listing initial_result)
            (defaultIgnoreDirs @ ignoreDirs) (defaultIgnoreFiles @ ignoreFiles) 0)"
  by (simp add: scanWorkspace_def Let_def)

section \<open>The scenario of a TypeScript project\<close>

text \<open>
  Claim C1. For a root holding \<open>package.json\<close> with a \<open>typescript\<close> development
  dependency and a file \<open>src/index.ts\<close>, the scan reports the type \<open>node\<close>, the tag
  \<open>typescript\<close> and the directory \<open>src\<close>; the claim also expects the path
  \<open>src/index.ts\<close> among \<open>files\<close>. The walker computes each relative path against the
  directory it is listing, so the file is recorded as \<open>index.ts\<close>: the result below is
  what the scan returns, and \<open>src/index.ts\<close> is not in it.
\<close>

theorem scan_typescript_workspace:
  "scanWorkspace to_text (manifest_parser dev_manifest_text dev_manifest) ''/ws''
       (Inr typescript_workspace) [] [] =
     Inr \<lparr>files = [''package.json'', ''index.ts''],
          directories = [''src''],
          fileContents =
            [(''package.json'', Text (to_text dev_manifest_text)),
             (''index.ts'', Text (to_text ''export {};''))],
          projectType = ''node'',
          mainLanguages = [''javascript'', ''typescript'']\<rparr>"
  by code_simp

section \<open>Same-named files in different directories\<close>

text \<open>
  Claim C5. The \<open>files\<close> sequence is claimed to hold no path twice, also when files of
  one base name lie in different directories. For \<open>a/index.js\<close> and \<open>b/index.js\<close> the
  scan records \<open>index.js\<close> twice, and keeps one content under that key.
\<close>

theorem scan_twin_workspace:
  "scanWorkspace to_text (manifest_parser [] JNull) ''/ws'' (Inr twin_workspace) [] [] =
     Inr \<lparr>files = [''index.js'', ''index.js''],
          directories = [''a'', ''b''],
          fileContents = [(''index.js'', Text (to_text ''2''))],
          projectType = ''unknown'',
          mainLanguages = []\<rparr>"
  by code_simp

section \<open>TypeScript among the runtime dependencies\<close>

text \<open>
  Claim C9. The tag \<open>typescript\<close> is claimed for a manifest that lists TypeScript in
  either dependency group. For a manifest with no \<open>devDependencies\<close> member and
  TypeScript among \<open>dependencies\<close> the classifier adds no such tag: the test of the
  runtime group sits behind the test that \<open>devDependencies\<close> exists.
\<close>

theorem scan_runtime_workspace:
  "scanWorkspace to_text (manifest_parser runtime_manifest_text runtime_manifest) ''/ws''
       (Inr runtime_workspace) [] [] =
     Inr \<lparr>files = [''package.json''],
          directories = [],
          fileContents = [(''package.json'', Text (to_text runtime_manifest_text))],
          projectType = ''node'',
          mainLanguages = [''javascript'']\<rparr>"
  by code_simp

section \<open>Errors of the file system\<close>

text \<open>
  Claim C2, as stated: a root that does not exist or is not a directory makes the scan
  call fail. Both passes catch the error of listing the root, and the scan returns the
  initial result.
\<close>

theorem scan_missing_root:
  "scanWorkspace to_text (manifest_parser [] JNull) ''/ws'' (Inl ENOENT) [] [] = Inr initial_result
   \<and> scanWorkspace to_text (manifest_parser [] JNull) ''/ws'' (Inl ENOTDIR) [] [] = Inr initial_result"
  by (simp add: scanWorkspace_def identifyProjectType_def)

text \<open>
  Claim C2, amended: the scan never fails. For a root that cannot be listed it returns
  the initial result (no files, no directories, no contents, type \<open>unknown\<close>). A file
  that cannot be read and a directory below the root that cannot be listed leave the
  loop running: the remaining entries are scanned, from a result that differs at most by
  the entry's own path pushed on \<open>files\<close> or \<open>directories\<close>. A capture of the classifier
  that cannot be read changes nothing.
\<close>

theorem scan_survives_errors:
  "scanWorkspace decode P rootPath (Inl e) ignoreDirs ignoreFiles = Inr initial_result
   \<and> (\<exists>r. scanWorkspace decode P rootPath listing ignoreDirs ignoreFiles = Inr r)
   \<and> scan_entries decode rp se mf (FileNode n (Inl e) # rest) r di fi d =
       scan_entries decode rp se mf rest
         (if n \<notin> set fi \<and>
             (isLikelyImportantFile (path_join rp n)
              \<or> length (object_keys (fileContents r)) < mf
                \<and> toLowerCase (path_extname n) \<in> set se)
          then push_file (path_relative rp (path_join rp n)) r else r)
         di fi d
   \<and> scan_entries decode rp se mf (DirNode n (Inl e) # rest) r di fi d =
       scan_entries decode rp se mf rest
         (if n \<notin> set di \<and> isLikelyImportantDirectory n
          then push_directory (path_relative rp (path_join rp n)) r else r)
         di fi d
   \<and> capture key (Inl e) r = r"
  by (auto simp: scanWorkspace_def identifyProjectType_def scan_file_def Let_def
        read_limited_def capture_def)

section \<open>Several marker files in one root\<close>

lemma identify_entry_type:
  "projectType (identify_entry decode P entries r e) =
     (case entry_marker e of None \<Rightarrow> projectType r | Some t \<Rightarrow> t)"
  by (cases e) (auto simp: marker_type_def Let_def split: sum.splits)

lemma identify_fold_type:
  "projectType (foldl (identify_entry decode P entries) r es) =
     (if marker_types es = [] then projectType r else last (marker_types es))"
proof (induction es arbitrary: r)
  case Nil
  then show ?case by (simp add: marker_types_def)
next
  case (Cons e es)
  then show ?case
    by (cases "entry_marker e")
       (auto simp: marker_types_def identify_entry_type)
qed

lemma listed_type_is_last_marker:
  "projectType (identifyProjectType decode P (Inr entries) initial_result) =
     (if marker_types entries = [] then ''unknown'' else last (marker_types entries))"
  by (simp add: identifyProjectType_def identify_fold_type) (simp add: initial_result_def)



lemma classifier_type:
  "projectType (identifyProjectType decode P listing initial_result) =
     (if marker_types (root_entries listing) = [] then ''unknown''
      else last (marker_types (root_entries listing)))"
proof (cases listing)
  case (Inl e)
  then show ?thesis
    by (simp add: identifyProjectType_def root_entries_def marker_types_def initial_result_def)
next
  case (Inr entries)
  then show ?thesis
    by (simp add: root_entries_def listed_type_is_last_marker)
qed

text \<open>
  Claim C3, as stated: with several marker files in the root, the type reported is that
  of the marker first in the table's order (\<open>node\<close> before \<open>python\<close> before ...),
  whatever the order of the listing. For a root with \<open>package.json\<close> and
  \<open>requirements.txt\<close> the type is \<open>python\<close> when the listing names the manifest first,
  and \<open>node\<close> when it names it last.
\<close>

theorem scan_mixed_markers:
  "scanWorkspace to_text (manifest_parser ''{}'' (JObj [])) ''/ws'' (Inr node_then_python) [] [] =
     Inr \<lparr>files = [''package.json'', ''requirements.txt''], directories = [],
          fileContents =
            [(''package.json'', Text (to_text ''{}'')),
             (''requirements.txt'', Text (to_text ''flask''))],
          projectType = ''python'', mainLanguages = [''javascript'', ''python'']\<rparr>
   \<and> scanWorkspace to_text (manifest_parser ''{}'' (JObj [])) ''/ws'' (Inr python_then_node) [] [] =
     Inr \<lparr>files = [''requirements.txt'', ''package.json''], directories = [],
          fileContents =
            [(''requirements.txt'', Text (to_text ''flask'')),
             (''package.json'', Text (to_text ''{}''))],
          projectType = ''node'', mainLanguages = [''python'', ''javascript'']\<rparr>"
  by code_simp

text \<open>
  Claim C3, amended: the type reported is that of the marker file that comes last in the
  listing of the root (every marker entry overwrites the type an earlier one set), and
  \<open>unknown\<close> when the root has no marker file or cannot be listed.
\<close>

theorem type_of_last_marker:
  "\<exists>r. scanWorkspace decode P rootPath listing ignoreDirs ignoreFiles = Inr r
     \<and> projectType r =
         (if marker_types (root_entries listing) = [] then ''unknown''
          else last (marker_types (root_entries listing)))"
proof -
  let ?c = "identifyProjectType decode P listing initial_result"
  let ?r = "scanImportantFiles decode rootPath listing ?c
              (defaultIgnoreDirs @ ignoreDirs) (defaultIgnoreFiles @ ignoreFiles) 0"
  have a: "scanWorkspace decode P rootPath listing ignoreDirs ignoreFiles = Inr ?r"
    by (rule scanWorkspace_eq)
  have b: "projectType ?r =
      (if marker_types (root_entries listing) = [] then ''unknown''
       else last (marker_types (root_entries listing)))"
    by (simp only: walker_frame classifier_type)
  show ?thesis
    by (rule exI [of _ ?r]) (rule conjI [OF a b])
qed

section \<open>The keys of the contents\<close>

lemma keys_accounted_iff:
  "keys_accounted r \<longleftrightarrow>
     set (object_keys (fileContents r)) \<subseteq> set (files r) \<union> set canonical_keys"
  by (auto simp: keys_accounted_def list_all_iff)

lemma keys_update:
  "set (object_keys (AList.update k v al)) = insert k (set (object_keys al))"
  using AList.dom_update [of k v al] by (simp add: object_keys_def)

lemma scan_file_accounted:
  "keys_accounted r \<Longrightarrow> keys_accounted (scan_file decode rp se mf fi n f r)"
  by (auto simp: keys_accounted_iff scan_file_def Let_def keys_update split: sum.splits)

lemma push_directory_accounted:
  "keys_accounted r \<Longrightarrow> keys_accounted (push_directory p r)"
  by (simp add: keys_accounted_iff)

lemma walker_accounted:
  "keys_accounted r \<Longrightarrow> keys_accounted (scanImportantFiles decode rp listing r di fi d)"
  "keys_accounted r \<Longrightarrow> keys_accounted (scan_entries decode rp se mf es r di fi d)"
  by (induction decode rp listing r di fi d and decode rp se mf es r di fi d
        rule: scanImportantFiles_scan_entries.induct)
     (simp_all add: scan_file_accounted push_directory_accounted)

lemma distinct_keys_update:
  "distinct (object_keys al) \<Longrightarrow> distinct (object_keys (AList.update k v al))"
  by (simp add: object_keys_def AList.distinct_update)

lemma identify_entry_classified:
  "classified r \<Longrightarrow> classified (identify_entry decode P entries r e)"
  by (cases e)
     (auto simp: classified_def Let_def capture_def keys_update distinct_keys_update
        canonical_keys_def split: sum.splits)

lemma identify_fold_classified:
  "classified r \<Longrightarrow> classified (foldl (identify_entry decode P entries) r es)"
  by (induction es arbitrary: r) (simp_all add: identify_entry_classified)

lemma identifyProjectType_classified:
  "classified (identifyProjectType decode P listing initial_result)"
proof -
  have "classified initial_result"
    by (simp add: classified_def initial_result_def object_keys_def)
  then show ?thesis
    by (simp add: identifyProjectType_def identify_fold_classified split: sum.splits)
qed

lemma classified_accounted: "classified r \<Longrightarrow> keys_accounted r"
  by (auto simp: classified_def keys_accounted_iff)

text \<open>
  Claim C4, as stated: a key of \<open>contents\<close> is a path of \<open>files\<close>, or one of two
  canonical keys, the manifest's and the readme's. For a root holding \<open>license.txt\<close>
  the contents have the key \<open>LICENSE\<close>: it is not in \<open>files\<close>, and it is neither a
  manifest's key nor the readme's.
\<close>

theorem scan_license_workspace:
  "scanWorkspace to_text (manifest_parser [] JNull) ''/ws'' (Inr license_workspace) [] [] =
     Inr \<lparr>files = [''license.txt''], directories = [],
          fileContents =
            [(''LICENSE'', Text (to_text ''MIT'')), (''license.txt'', Text (to_text ''MIT''))],
          projectType = ''unknown'', mainLanguages = []\<rparr>"
  by code_simp

text \<open>
  Claim C4, amended: every key of \<open>contents\<close> is a path that also appears in \<open>files\<close>,
  or one of the four canonical keys \<open>package.json\<close>, \<open>requirements.txt\<close>,
  \<open>README.md\<close> and \<open>LICENSE\<close>.
\<close>

theorem keys_are_files_or_canonical:
  assumes "scanWorkspace decode P rootPath listing ignoreDirs ignoreFiles = Inr r"
    and "k \<in> set (object_keys (fileContents r))"
  shows "k \<in> set (files r) \<or> k \<in> set canonical_keys"
proof -
  have "keys_accounted (identifyProjectType decode P listing initial_result)"
    by (rule classified_accounted [OF identifyProjectType_classified])
  then have "keys_accounted r"
    using assms(1) by (auto simp only: scanWorkspace_eq walker_accounted sum.inject)
  then show ?thesis
    using assms(2) by (auto simp: keys_accounted_iff)
qed

theorem keys_are_files_or_canonical_witness:
  "scanWorkspace to_text (manifest_parser [] JNull) ''/ws'' (Inr license_workspace) [] [] =
     Inr \<lparr>files = [''license.txt''], directories = [],
          fileContents =
            [(''LICENSE'', Text (to_text ''MIT'')), (''license.txt'', Text (to_text ''MIT''))],
          projectType = ''unknown'', mainLanguages = []\<rparr>
   \<and> ''LICENSE''
       \<in> set (object_keys
             [(''LICENSE'', Text (to_text ''MIT'')), (''license.txt'', Text (to_text ''MIT''))])
   \<and> ''LICENSE'' \<notin> set [''license.txt'']
   \<and> ''LICENSE'' \<in> set canonical_keys"
proof -
  have s: "scanWorkspace to_text (manifest_parser [] JNull) ''/ws'' (Inr license_workspace) [] [] =
     Inr \<lparr>files = [''license.txt''], directories = [],
          fileContents =
            [(''LICENSE'', Text (to_text ''MIT'')), (''license.txt'', Text (to_text ''MIT''))],
          projectType = ''unknown'', mainLanguages = []\<rparr>"
    by code_simp
  have k: "''LICENSE'' \<in> set (object_keys (fileContents
      \<lparr>files = [''license.txt''], directories = [],
       fileContents =
         [(''LICENSE'', Text (to_text ''MIT'')), (''license.txt'', Text (to_text ''MIT''))],
       projectType = ''unknown'', mainLanguages = []\<rparr>))"
    by (simp add: object_keys_def)
  show ?thesis
    using keys_are_files_or_canonical [OF s k] s by (simp add: object_keys_def)
qed

section \<open>The quota of contents\<close>

lemma classified_count: "classified r \<Longrightarrow> length (object_keys (fileContents r)) \<le> 4"
proof -
  assume c: "classified r"
  then have "length (object_keys (fileContents r)) = card (set (object_keys (fileContents r)))"
    by (simp add: classified_def distinct_card)
  also have "\<dots> \<le> card (set canonical_keys)"
    using c by (intro card_mono) (auto simp: classified_def)
  also have "\<dots> \<le> length canonical_keys" by (rule card_length)
  finally show ?thesis by (simp add: canonical_keys_def)
qed

lemma base_quota: "50 \<le> calculateMaxFiles t"
  by (simp add: calculateMaxFiles_def)

lemma length_keys_update:
  "length (object_keys (AList.update k v al)) \<le> Suc (length (object_keys al))"
  by (induction al) (auto simp: object_keys_def)

lemma scan_file_quota:
  "within_quota r \<Longrightarrow> within_quota (scan_file decode rp se (calculateMaxFiles (projectType r)) fi n f r)"
  using length_keys_update [of "path_relative rp (path_join rp n)" _ "fileContents r"]
  by (auto simp: within_quota_def scan_file_def Let_def split: sum.splits
        intro: le_trans [OF length_keys_update])

lemma push_directory_quota: "within_quota r \<Longrightarrow> within_quota (push_directory p r)"
  by (simp add: within_quota_def)

lemma walker_quota:
  "within_quota r \<Longrightarrow> within_quota (scanImportantFiles decode rp listing r di fi d)"
  "within_quota r \<Longrightarrow> calculateMaxFiles (projectType r) = mf
     \<Longrightarrow> within_quota (scan_entries decode rp se mf es r di fi d)"
proof (induction decode rp listing r di fi d and decode rp se mf es r di fi d
        rule: scanImportantFiles_scan_entries.induct)
  case (1 decode rootPath e result dirsToIgnore filesToIgnore depth)
  then show ?case by simp
next
  case (2 decode rootPath entries result dirsToIgnore filesToIgnore depth)
  then show ?case by simp
next
  case (3 decode rootPath sourceExtensions maxFiles result dirsToIgnore filesToIgnore depth)
  then show ?case by simp
next
  case (4 decode rootPath sourceExtensions maxFiles dirName listing rest result dirsToIgnore
          filesToIgnore depth)
  define r1 where "r1 =
    (if dirName \<in> set dirsToIgnore then result
     else if isLikelyImportantDirectory dirName then
       scanImportantFiles decode (path_join rootPath dirName) listing
         (push_directory (path_relative rootPath (path_join rootPath dirName)) result)
         dirsToIgnore filesToIgnore (depth + 1)
     else result)"
  have q: "within_quota r1"
    using "4.IH"(1) "4.prems"(1) by (simp add: r1_def push_directory_quota)
  have t: "calculateMaxFiles (projectType r1) = maxFiles"
    using "4.prems"(2) by (simp add: r1_def walker_frame)
  have "within_quota (scan_entries decode rootPath sourceExtensions maxFiles rest r1 dirsToIgnore
          filesToIgnore depth)"
    using "4.IH"(2) q t unfolding r1_def by blast
  then show ?case by (simp add: r1_def)
next
  case (5 decode rootPath sourceExtensions maxFiles fileName fdata rest result dirsToIgnore
          filesToIgnore depth)
  have q: "within_quota
      (scan_file decode rootPath sourceExtensions maxFiles filesToIgnore fileName fdata result)"
    using scan_file_quota [OF "5.prems"(1)] "5.prems"(2) by simp
  show ?case
    using "5.IH" [OF q] "5.prems"(2) by simp
next
  case (6 decode rootPath sourceExtensions maxFiles n rest result dirsToIgnore filesToIgnore depth)
  then show ?case by simp
qed

lemma classifier_quota: "within_quota (identifyProjectType decode P listing initial_result)"
proof -
  have "length (object_keys (fileContents (identifyProjectType decode P listing initial_result))) \<le> 4"
    by (rule classified_count [OF identifyProjectType_classified])
  moreover have "50 \<le> calculateMaxFiles (projectType (identifyProjectType decode P listing initial_result))"
    by (rule base_quota)
  ultimately show ?thesis by (simp add: within_quota_def)
qed

lemma scan_quota:
  "within_quota (scanImportantFiles decode rootPath listing (identifyProjectType decode P listing initial_result)
      di fi 0)"
  by (rule walker_quota(1) [OF classifier_quota])

lemma quota_values:
  "calculateMaxFiles ''node'' = 70 \<and> calculateMaxFiles ''python'' = 60
   \<and> calculateMaxFiles ''java'' = 65 \<and> calculateMaxFiles ''rust'' = 55
   \<and> calculateMaxFiles ''go'' = 60 \<and> calculateMaxFiles ''unknown'' = 50
   \<and> 50 \<le> calculateMaxFiles t \<and> calculateMaxFiles t \<le> calculateMaxFiles ''node''"
  by (simp add: calculateMaxFiles_def)

lemma scan_file_at_quota:
  "mf \<le> length (object_keys (fileContents r)) \<Longrightarrow>
   scan_file decode rp se mf fi n f r =
     (if n \<notin> set fi \<and> isLikelyImportantFile (path_join rp n)
      then push_file (path_relative rp (path_join rp n)) r else r)"
  by (simp add: scan_file_def Let_def)

lemma quota_workspace_keys:
  "length (object_keys (fileContents quota_workspace)) = 70"
  by (simp add: quota_workspace_def object_keys_def)

lemma quota_workspace_fields:
  "projectType quota_workspace = ''node''"
  "mainLanguages quota_workspace = [''javascript'']"
  "files quota_workspace = []"
  by (simp_all add: quota_workspace_def)

text \<open>
  Claim C6. At every point of the walk and after it, the contents hold at most
  \<open>calculateMaxFiles projectType\<close> keys: the result the classifier hands over is within
  the quota, every step of the walker (one file, a loop over entries, a directory) keeps
  a result within the quota, and so is the result of the scan. The quota is 50 plus a
  bonus by type, the largest, 20, for \<open>node\<close>. Once the quota is reached, an important
  file that is not ignored is appended to \<open>files\<close> and the contents stay as they are.
\<close>

theorem contents_within_quota:
  "(\<exists>r. scanWorkspace decode P rootPath listing ignoreDirs ignoreFiles = Inr r \<and> within_quota r)
   \<and> within_quota (identifyProjectType decode P listing initial_result)
   \<and> (within_quota r \<longrightarrow>
        within_quota (scan_file decode rp se (calculateMaxFiles (projectType r)) fi n f r)
        \<and> within_quota (scan_entries decode rp se (calculateMaxFiles (projectType r)) es r di fi d)
        \<and> within_quota (scanImportantFiles decode rp sub r di fi d))
   \<and> (calculateMaxFiles (projectType r) \<le> length (object_keys (fileContents r))
        \<and> n \<notin> set fi \<and> isLikelyImportantFile (path_join rp n) \<longrightarrow>
        files (scan_file decode rp se (calculateMaxFiles (projectType r)) fi n f r) =
          files r @ [path_relative rp (path_join rp n)]
        \<and> fileContents (scan_file decode rp se (calculateMaxFiles (projectType r)) fi n f r) =
          fileContents r)
   \<and> 50 \<le> calculateMaxFiles t \<and> calculateMaxFiles t \<le> calculateMaxFiles ''node''
   \<and> calculateMaxFiles ''node'' = 50 + 20 \<and> calculateMaxFiles ''unknown'' = 50"
proof -
  let ?r = "scanImportantFiles decode rootPath listing (identifyProjectType decode P listing initial_result)
              (defaultIgnoreDirs @ ignoreDirs) (defaultIgnoreFiles @ ignoreFiles) 0"
  have a: "\<exists>r. scanWorkspace decode P rootPath listing ignoreDirs ignoreFiles = Inr r \<and> within_quota r"
    by (rule exI [of _ ?r]) (rule conjI [OF scanWorkspace_eq scan_quota])
  have b: "within_quota r \<longrightarrow>
        within_quota (scan_file decode rp se (calculateMaxFiles (projectType r)) fi n f r)
        \<and> within_quota (scan_entries decode rp se (calculateMaxFiles (projectType r)) es r di fi d)
        \<and> within_quota (scanImportantFiles decode rp sub r di fi d)"
    by (simp add: scan_file_quota walker_quota)
  have c: "calculateMaxFiles (projectType r) \<le> length (object_keys (fileContents r))
        \<and> n \<notin> set fi \<and> isLikelyImportantFile (path_join rp n) \<longrightarrow>
        files (scan_file decode rp se (calculateMaxFiles (projectType r)) fi n f r) =
          files r @ [path_relative rp (path_join rp n)]
        \<and> fileContents (scan_file decode rp se (calculateMaxFiles (projectType r)) fi n f r) =
          fileContents r"
    by (simp add: scan_file_at_quota)
  show ?thesis
    using a b c classifier_quota [of decode P listing] quota_values [of t] by simp
qed

theorem contents_within_quota_witness:
  "within_quota quota_workspace
   \<and> calculateMaxFiles (projectType quota_workspace)
       \<le> length (object_keys (fileContents quota_workspace))
   \<and> ''README.md'' \<notin> set defaultIgnoreFiles
   \<and> isLikelyImportantFile (path_join ''/ws'' ''README.md'')
   \<and> files (scan_file to_text ''/ws'' [''.js'', ''.jsx'', ''.ts'', ''.tsx'']
         (calculateMaxFiles (projectType quota_workspace)) defaultIgnoreFiles ''README.md''
         (Inr ''# readme'') quota_workspace) = [''README.md'']
   \<and> fileContents (scan_file to_text ''/ws'' [''.js'', ''.jsx'', ''.ts'', ''.tsx'']
         (calculateMaxFiles (projectType quota_workspace)) defaultIgnoreFiles ''README.md''
         (Inr ''# readme'') quota_workspace) = fileContents quota_workspace
   \<and> within_quota (scan_file to_text ''/ws'' [''.js'', ''.jsx'', ''.ts'', ''.tsx'']
         (calculateMaxFiles (projectType quota_workspace)) defaultIgnoreFiles ''README.md''
         (Inr ''# readme'') quota_workspace)"
proof -
  have m: "calculateMaxFiles (projectType quota_workspace) = 70"
    by (simp add: quota_workspace_fields calculateMaxFiles_def)
  have q: "within_quota quota_workspace"
    by (simp add: within_quota_def m quota_workspace_keys)
  have h1: "calculateMaxFiles (projectType quota_workspace)
       \<le> length (object_keys (fileContents quota_workspace))"
    by (simp add: m quota_workspace_keys)
  have h2: "''README.md'' \<notin> set defaultIgnoreFiles"
    by code_simp
  have h3: "isLikelyImportantFile (path_join ''/ws'' ''README.md'')"
    by code_simp
  have p: "path_relative ''/ws'' (path_join ''/ws'' ''README.md'') = ''README.md''"
    by code_simp
  note t = contents_within_quota [of to_text "manifest_parser [] JNull" "''/ws''" "Inl ENOENT" "[]" "[]"
        quota_workspace "''/ws''" "[''.js'', ''.jsx'', ''.ts'', ''.tsx'']" defaultIgnoreFiles
        "''README.md''" "Inr ''# readme''" "[]" "[]" 0 "Inl ENOENT" "''node''"]
  from t q have a: "within_quota (scan_file to_text ''/ws'' [''.js'', ''.jsx'', ''.ts'', ''.tsx'']
         (calculateMaxFiles (projectType quota_workspace)) defaultIgnoreFiles ''README.md''
         (Inr ''# readme'') quota_workspace)"
    by blast
  from t h1 h2 h3 have b: "files (scan_file to_text ''/ws'' [''.js'', ''.jsx'', ''.ts'', ''.tsx'']
         (calculateMaxFiles (projectType quota_workspace)) defaultIgnoreFiles ''README.md''
         (Inr ''# readme'') quota_workspace) =
          files quota_workspace @ [path_relative ''/ws'' (path_join ''/ws'' ''README.md'')]
        \<and> fileContents (scan_file to_text ''/ws'' [''.js'', ''.jsx'', ''.ts'', ''.tsx'']
         (calculateMaxFiles (projectType quota_workspace)) defaultIgnoreFiles ''README.md''
         (Inr ''# readme'') quota_workspace) = fileContents quota_workspace"
    by blast
  show ?thesis
    using q h1 h2 h3 a b by (simp only: p quota_workspace_fields append_Nil) blast
qed

text \<open>
  Claim C10. Once the quota is reached, a file that is not important and whose extension
  is a source extension of the project is skipped: the result is unchanged, so the file is
  neither appended to \<open>files\<close> nor read.
\<close>

theorem source_file_skipped_at_quota:
  assumes "calculateMaxFiles (projectType r) \<le> length (object_keys (fileContents r))"
    and "\<not> isLikelyImportantFile (path_join rp n)"
    and "toLowerCase (path_extname n)
           \<in> set (getSourceFileExtensions (projectType r) (mainLanguages r))"
  shows "scan_file decode rp (getSourceFileExtensions (projectType r) (mainLanguages r))
           (calculateMaxFiles (projectType r)) fi n f r = r"
  using assms by (simp add: scan_file_at_quota)

theorem source_file_skipped_at_quota_witness:
  "calculateMaxFiles (projectType quota_workspace)
     \<le> length (object_keys (fileContents quota_workspace))
   \<and> \<not> isLikelyImportantFile (path_join ''/ws'' ''App.tsx'')
   \<and> toLowerCase (path_extname ''App.tsx'')
       \<in> set (getSourceFileExtensions (projectType quota_workspace)
                (mainLanguages quota_workspace))
   \<and> scan_file to_text ''/ws''
         (getSourceFileExtensions (projectType quota_workspace) (mainLanguages quota_workspace))
         (calculateMaxFiles (projectType quota_workspace)) defaultIgnoreFiles ''App.tsx''
         (Inr ''export {};'') quota_workspace = quota_workspace"
proof -
  have h1: "calculateMaxFiles (projectType quota_workspace)
     \<le> length (object_keys (fileContents quota_workspace))"
    by (simp add: quota_workspace_fields calculateMaxFiles_def quota_workspace_keys)
  have h2: "\<not> isLikelyImportantFile (path_join ''/ws'' ''App.tsx'')"
    by code_simp
  have "toLowerCase (path_extname ''App.tsx'') \<in> set (getSourceFileExtensions ''node'' [''javascript''])"
    by code_simp
  then have h3: "toLowerCase (path_extname ''App.tsx'')
       \<in> set (getSourceFileExtensions (projectType quota_workspace)
                (mainLanguages quota_workspace))"
    by (simp only: quota_workspace_fields)
  show ?thesis
    using source_file_skipped_at_quota [OF h1 h2 h3] h1 h2 h3 by blast
qed

section \<open>Truncation\<close>







lemma whole_frame:
  "fileContents r' = fileContents r \<Longrightarrow> whole_texts decode entries r
     \<Longrightarrow> whole_texts decode entries r'"
  by (simp add: whole_texts_def)










section \<open>The Sample Selector's excerpts\<close>

lemma includes_chosen:
  assumes "well_formed toStr obj st" and "k \<in> set (chosen st)"
  shows "str_includes (samples st) (header k)"
proof -
  from assms(2) obtain as bs where c: "chosen st = as @ k # bs"
    by (auto simp: in_set_conv_decomp)
  have "samples st =
      concat (map (excerpt toStr obj) as) @ header k
        @ (newline # to_text ''```'' @ newline # render toStr obj k @ newline
             # to_text ''```'' @ [newline, newline]) @ concat (map (excerpt toStr obj) bs)"
    using assms(1) by (simp add: well_formed_def c excerpt_def)
  then show ?thesis
    unfolding str_includes_def sublist_def by blast
qed

lemma well_formed_add:
  assumes "well_formed toStr obj st" and "sampleCount st < maxSamples"
    and "k \<notin> set (chosen st)"
  shows "well_formed toStr obj (add_sample toStr obj k st)"
  using assms by (simp add: well_formed_def add_sample_def)

lemma add_sample_fields [simp]:
  "chosen (add_sample toStr obj k st) = chosen st @ [k]"
  "sampleCount (add_sample toStr obj k st) = Suc (sampleCount st)"
  by (simp_all add: add_sample_def)

lemma sample_loop_props:
  assumes "well_formed toStr obj st" and "distinct keys"
    and "skip \<or> (\<forall>k\<in>set keys. m k \<longrightarrow> k \<notin> set (chosen st))"
  shows "\<exists>added. chosen (sample_loop skip m toStr obj keys st) = chosen st @ added
           \<and> set added \<subseteq> {k \<in> set keys. m k}
           \<and> set added \<inter> set (chosen st) = {}
           \<and> well_formed toStr obj (sample_loop skip m toStr obj keys st)"
  using assms
proof (induction keys arbitrary: st)
  case Nil
  then show ?case by simp
next
  case (Cons k rest)
  show ?case
  proof (cases "sampleCount st \<ge> maxSamples")
    case True
    then show ?thesis using Cons.prems(1) by simp
  next
    case below: False
    show ?thesis
    proof (cases "skip \<and> str_includes (samples st) (header k)")
      case True
      have "skip \<or> (\<forall>k\<in>set rest. m k \<longrightarrow> k \<notin> set (chosen st))"
        using Cons.prems(3) by auto
      from Cons.IH [OF Cons.prems(1) _ this] Cons.prems(2)
      obtain added where
        "chosen (sample_loop skip m toStr obj rest st) = chosen st @ added"
        "set added \<subseteq> {k \<in> set rest. m k}"
        "set added \<inter> set (chosen st) = {}"
        "well_formed toStr obj (sample_loop skip m toStr obj rest st)"
        by auto
      then show ?thesis
        using True below by (intro exI [of _ added]) auto
    next
      case noskip: False
      show ?thesis
      proof (cases "m k")
        case True
        have fresh: "k \<notin> set (chosen st)"
        proof (cases skip)
          case True
          then have "\<not> str_includes (samples st) (header k)" using noskip by simp
          then show ?thesis using includes_chosen [OF Cons.prems(1)] by blast
        next
          case False
          then show ?thesis using Cons.prems(3) \<open>m k\<close> by simp
        qed
        let ?st = "add_sample toStr obj k st"
        have wf: "well_formed toStr obj ?st"
          using well_formed_add [OF Cons.prems(1) _ fresh] below by simp
        have h: "skip \<or> (\<forall>k'\<in>set rest. m k' \<longrightarrow> k' \<notin> set (chosen ?st))"
          using Cons.prems(2,3) by auto
        from Cons.IH [OF wf _ h] Cons.prems(2)
        obtain added where a:
          "chosen (sample_loop skip m toStr obj rest ?st) = chosen ?st @ added"
          "set added \<subseteq> {k \<in> set rest. m k}"
          "set added \<inter> set (chosen ?st) = {}"
          "well_formed toStr obj (sample_loop skip m toStr obj rest ?st)"
          by auto
        show ?thesis
          using a True below noskip fresh by (intro exI [of _ "k # added"]) auto
      next
        case False
        have "skip \<or> (\<forall>k\<in>set rest. m k \<longrightarrow> k \<notin> set (chosen st))"
          using Cons.prems(3) by auto
        from Cons.IH [OF Cons.prems(1) _ this] Cons.prems(2)
        obtain added where
          "chosen (sample_loop skip m toStr obj rest st) = chosen st @ added"
          "set added \<subseteq> {k \<in> set rest. m k}"
          "set added \<inter> set (chosen st) = {}"
          "well_formed toStr obj (sample_loop skip m toStr obj rest st)"
          by auto
        then show ?thesis
          using False below noskip by (intro exI [of _ added]) auto
      qed
    qed
  qed
qed

lemma sample_loop_full:
  "sampleCount st \<ge> maxSamples \<Longrightarrow> sample_loop skip m toStr obj keys st = st"
  by (cases keys) simp_all

lemma pattern_loop_full:
  "sampleCount st \<ge> maxSamples \<Longrightarrow> pattern_loop skip test toStr obj pats st = st"
  by (cases pats) simp_all

lemma sample_loop_mono:
  "sampleCount st \<le> sampleCount (sample_loop skip m toStr obj keys st)
   \<and> set (chosen st) \<subseteq> set (chosen (sample_loop skip m toStr obj keys st))"
proof (induction keys arbitrary: st)
  case Nil
  then show ?case by simp
next
  case (Cons k rest)
  show ?case
    using Cons.IH [of st] Cons.IH [of "add_sample toStr obj k st"] by auto
qed

lemma pattern_loop_mono:
  "sampleCount st \<le> sampleCount (pattern_loop skip test toStr obj pats st)
   \<and> set (chosen st) \<subseteq> set (chosen (pattern_loop skip test toStr obj pats st))"
proof (induction pats arbitrary: st)
  case Nil
  then show ?case by simp
next
  case (Cons p ps)
  show ?case
    using Cons.IH [of "sample_loop skip (test p) toStr obj (object_keys obj) st"]
      sample_loop_mono [of st skip "test p" toStr obj "object_keys obj"]
    by auto
qed

lemma sample_loop_complete:
  "sampleCount (sample_loop False m toStr obj keys st) < maxSamples \<Longrightarrow>
   k \<in> set keys \<Longrightarrow> m k \<Longrightarrow> k \<in> set (chosen (sample_loop False m toStr obj keys st))"
proof (induction keys arbitrary: st)
  case Nil
  then show ?case by simp
next
  case (Cons x rest)
  have below: "\<not> sampleCount st \<ge> maxSamples"
    using Cons.prems(1) by (auto simp: sample_loop_full)
  show ?case
  proof (cases "m x")
    case True
    let ?st = "add_sample toStr obj x st"
    have r: "sample_loop False m toStr obj (x # rest) st = sample_loop False m toStr obj rest ?st"
      using below True by simp
    show ?thesis
    proof (cases "k = x")
      case True
      then show ?thesis
        using sample_loop_mono [of ?st False m toStr obj rest] r by auto
    next
      case False
      then show ?thesis
        using Cons.IH [of ?st] Cons.prems r by auto
    qed
  next
    case False
    then have r: "sample_loop False m toStr obj (x # rest) st = sample_loop False m toStr obj rest st"
      using below by simp
    show ?thesis
      using Cons.IH [of st] Cons.prems r False by auto
  qed
qed

lemma pattern_loop_skip:
  assumes "well_formed toStr obj st" and "distinct (object_keys obj)"
  shows "\<exists>added. chosen (pattern_loop True test toStr obj pats st) = chosen st @ added
           \<and> set added \<subseteq> set (object_keys obj)
           \<and> set added \<inter> set (chosen st) = {}
           \<and> well_formed toStr obj (pattern_loop True test toStr obj pats st)"
  using assms(1)
proof (induction pats arbitrary: st)
  case Nil
  then show ?case by simp
next
  case (Cons p ps)
  show ?case
  proof (cases "sampleCount st \<ge> maxSamples")
    case True
    then show ?thesis using Cons.prems by simp
  next
    case False
    let ?st = "sample_loop True (test p) toStr obj (object_keys obj) st"
    from sample_loop_props [OF Cons.prems assms(2), of True "test p"]
    obtain a1 where a1:
      "chosen ?st = chosen st @ a1" "set a1 \<subseteq> set (object_keys obj)"
      "set a1 \<inter> set (chosen st) = {}" "well_formed toStr obj ?st"
      by auto
    from Cons.IH [OF a1(4)]
    obtain a2 where a2:
      "chosen (pattern_loop True test toStr obj ps ?st) = chosen ?st @ a2"
      "set a2 \<subseteq> set (object_keys obj)"
      "set a2 \<inter> set (chosen ?st) = {}"
      "well_formed toStr obj (pattern_loop True test toStr obj ps ?st)"
      by auto
    show ?thesis
      using a1 a2 False by (intro exI [of _ "a1 @ a2"]) auto
  qed
qed

lemma priority_test_words:
  "anchored p \<Longrightarrow>
   priority_test p k \<longleftrightarrow> toLowerCase (toLowerCase (split_pop k)) \<in> set (pattern_words p)"
  by (simp add: priority_test_def pattern_test_def)

lemma pattern_loop_priority:
  assumes "distinct (object_keys obj)"
  shows "well_formed toStr obj st \<Longrightarrow> \<forall>p\<in>set pats. anchored p \<Longrightarrow>
     distinct (concat (map pattern_words pats)) \<Longrightarrow>
     \<forall>k\<in>set (chosen st). \<forall>p\<in>set pats. \<not> priority_test p k \<Longrightarrow>
     \<exists>added. chosen (pattern_loop False priority_test toStr obj pats st) = chosen st @ added
       \<and> set added \<subseteq> {k \<in> set (object_keys obj). \<exists>p\<in>set pats. priority_test p k}
       \<and> well_formed toStr obj (pattern_loop False priority_test toStr obj pats st)"
proof (induction pats arbitrary: st)
  case Nil
  then show ?case by simp
next
  case (Cons p ps)
  show ?case
  proof (cases "sampleCount st \<ge> maxSamples")
    case True
    then show ?thesis using Cons.prems(1) by simp
  next
    case False
    let ?st = "sample_loop False (priority_test p) toStr obj (object_keys obj) st"
    have fresh: "False \<or> (\<forall>k\<in>set (object_keys obj). priority_test p k \<longrightarrow> k \<notin> set (chosen st))"
      using Cons.prems(4) by auto
    from sample_loop_props [OF Cons.prems(1) assms fresh]
    obtain a1 where a1:
      "chosen ?st = chosen st @ a1"
      "set a1 \<subseteq> {k \<in> set (object_keys obj). priority_test p k}"
      "well_formed toStr obj ?st"
      by auto
    have anch: "\<forall>q\<in>set ps. anchored q" and ap: "anchored p"
      using Cons.prems(2) by auto
    have dis: "distinct (concat (map pattern_words ps))"
      and sep: "set (pattern_words p) \<inter> (\<Union>q\<in>set ps. set (pattern_words q)) = {}"
      using Cons.prems(3) by auto
    have excl: "\<forall>k\<in>set (chosen ?st). \<forall>q\<in>set ps. \<not> priority_test q k"
    proof (intro ballI)
      fix k q
      assume k: "k \<in> set (chosen ?st)" and q: "q \<in> set ps"
      show "\<not> priority_test q k"
      proof (cases "k \<in> set (chosen st)")
        case True
        then show ?thesis using Cons.prems(4) q by auto
      next
        case False
        then have "priority_test p k" using k a1 by auto
        then have "toLowerCase (toLowerCase (split_pop k)) \<in> set (pattern_words p)"
          using ap by (simp add: priority_test_words)
        then have "toLowerCase (toLowerCase (split_pop k)) \<notin> set (pattern_words q)"
          using sep q by auto
        then show ?thesis using anch q by (simp add: priority_test_words)
      qed
    qed
    from Cons.IH [OF a1(3) anch dis excl]
    obtain a2 where a2:
      "chosen (pattern_loop False priority_test toStr obj ps ?st) = chosen ?st @ a2"
      "set a2 \<subseteq> {k \<in> set (object_keys obj). \<exists>q\<in>set ps. priority_test q k}"
      "well_formed toStr obj (pattern_loop False priority_test toStr obj ps ?st)"
      by auto
    show ?thesis
      using a1 a2 False by (intro exI [of _ "a1 @ a2"]) auto
  qed
qed

lemma pattern_loop_complete:
  "sampleCount (pattern_loop False test toStr obj pats st) < maxSamples \<Longrightarrow>
   k \<in> set (object_keys obj) \<Longrightarrow> p \<in> set pats \<Longrightarrow> test p k \<Longrightarrow>
   k \<in> set (chosen (pattern_loop False test toStr obj pats st))"
proof (induction pats arbitrary: st)
  case Nil
  then show ?case by simp
next
  case (Cons q qs)
  have below: "\<not> sampleCount st \<ge> maxSamples"
    using Cons.prems(1) by (auto simp: pattern_loop_full)
  let ?st = "sample_loop False (test q) toStr obj (object_keys obj) st"
  have r: "pattern_loop False test toStr obj (q # qs) st =
      pattern_loop False test toStr obj qs ?st"
    using below by simp
  have m: "sampleCount ?st \<le> sampleCount (pattern_loop False test toStr obj qs ?st)"
    "set (chosen ?st) \<subseteq> set (chosen (pattern_loop False test toStr obj qs ?st))"
    using pattern_loop_mono [of ?st False test toStr obj qs] by auto
  show ?case
  proof (cases "p = q")
    case True
    have "sampleCount ?st < maxSamples"
      using m(1) Cons.prems(1) r by simp
    then have "k \<in> set (chosen ?st)"
      using sample_loop_complete [of "test q" toStr obj "object_keys obj" st k]
        Cons.prems(2,4) True by simp
    then show ?thesis using m(2) r by auto
  next
    case False
    then have "p \<in> set qs" using Cons.prems(3) by simp
    then show ?thesis
      using Cons.IH [of ?st] Cons.prems(1,2,4) r by simp
  qed
qed

lemma priority_words_ground:
  "distinct (concat (map pattern_words
     [Pattern True ''index'' [''js'', ''ts''], Pattern True ''main'' [''js'', ''ts''],
      Pattern True ''app'' [''js'', ''ts''], Pattern True ''app'' [''jsx'', ''tsx''],
      Pattern True ''index'' [''jsx'', ''tsx'']]))"
  "distinct (concat (map pattern_words
     [Pattern True ''index'' [''js'', ''ts''], Pattern True ''main'' [''js'', ''ts''],
      Pattern True ''app'' [''js'', ''ts'']]))"
  "distinct (concat (map pattern_words
     [Pattern True ''main'' [''py''], Pattern True ''app'' [''py''],
      Pattern True ''__init__'' [''py'']]))"
  "distinct (concat (map pattern_words
     [Pattern True ''main'' [''java''], Pattern True ''application'' [''java'']]))"
  "distinct (concat (map pattern_words
     [Pattern True ''main'' [''rs''], Pattern True ''lib'' [''rs'']]))"
  "distinct (concat (map pattern_words [Pattern True ''main'' [''go'']]))"
  "distinct (concat (map pattern_words
     [Pattern True ''main'' [''rb''], Pattern True ''application'' [''rb'']]))"
  "distinct (concat (map pattern_words [Pattern True ''index'' [''php'']]))"
  by code_simp+

lemma priority_patterns_anchored:
  "\<forall>p\<in>set (getPriorityFilesForProjectType kind languages). anchored p"
  by (simp add: getPriorityFilesForProjectType_def) (intro impI allI, elim conjE disjE, simp_all)

lemma priority_patterns_distinct:
  "distinct (concat (map pattern_words (getPriorityFilesForProjectType kind languages)))"
  unfolding getPriorityFilesForProjectType_def
  by (simp only: priority_words_ground append.simps if_True if_False split: if_split)
     (simp only: priority_words_ground list.map concat.simps distinct.simps simp_thms)

lemma select_samples_props:
  assumes d: "distinct (object_keys (fileContents data))"
  shows "\<exists>xs ys. chosen (select_samples toStr data) = xs @ ys
           \<and> list_all (is_priority data) xs
           \<and> list_all (\<lambda>p. \<not> is_priority data p) ys
           \<and> set (xs @ ys) \<subseteq> set (object_keys (fileContents data))
           \<and> well_formed toStr (fileContents data) (select_samples toStr data)"
proof -
  let ?obj = "fileContents data"
  let ?keys = "object_keys ?obj"
  let ?prio = "getPriorityFilesForProjectType (projectType data) (mainLanguages data)"
  let ?main = "getMainFilePatterns (projectType data) (mainLanguages data)"
  let ?src = "\<lambda>filePath. toLowerCase (path_extname filePath)
                  \<in> set (getSourceFileExtensions (projectType data) (mainLanguages data))"
  let ?s0 = "\<lparr>samples = [], sampleCount = 0, chosen = []\<rparr>"
  let ?s1 = "pattern_loop False priority_test toStr ?obj ?prio ?s0"
  let ?s2 = "pattern_loop True pattern_test toStr ?obj ?main ?s1"
  let ?s3 = "if sampleCount ?s2 < maxSamples then sample_loop True ?src toStr ?obj ?keys ?s2
             else ?s2"
  have sel: "select_samples toStr data = ?s3"
    by (simp add: select_samples_def Let_def)
  have wf0: "well_formed toStr ?obj ?s0"
    by (simp add: well_formed_def)
  have "\<forall>k\<in>set (chosen ?s0). \<forall>p\<in>set ?prio. \<not> priority_test p k"
    by simp
  from pattern_loop_priority [OF d wf0 priority_patterns_anchored priority_patterns_distinct this]
  obtain xs where p1:
    "chosen ?s1 = xs" "set xs \<subseteq> {k \<in> set ?keys. \<exists>p\<in>set ?prio. priority_test p k}"
    "well_formed toStr ?obj ?s1"
    by auto
  from pattern_loop_skip [OF p1(3) d, of pattern_test ?main]
  obtain a2 where p2:
    "chosen ?s2 = chosen ?s1 @ a2" "set a2 \<subseteq> set ?keys"
    "set a2 \<inter> set (chosen ?s1) = {}" "well_formed toStr ?obj ?s2"
    by auto
  have "\<exists>a3. chosen ?s3 = chosen ?s2 @ a3 \<and> set a3 \<subseteq> set ?keys
          \<and> set a3 \<inter> set (chosen ?s2) = {} \<and> well_formed toStr ?obj ?s3"
  proof (cases "sampleCount ?s2 < maxSamples")
    case True
    from sample_loop_props [OF p2(4) d, of True ?src]
    obtain a3 where
      "chosen (sample_loop True ?src toStr ?obj ?keys ?s2) = chosen ?s2 @ a3"
      "set a3 \<subseteq> set ?keys" "set a3 \<inter> set (chosen ?s2) = {}"
      "well_formed toStr ?obj (sample_loop True ?src toStr ?obj ?keys ?s2)"
      by auto
    then show ?thesis using True by (intro exI [of _ a3]) simp
  next
    case False
    then show ?thesis using p2(4) by (intro exI [of _ "[]"]) simp
  qed
  then obtain a3 where p3:
    "chosen ?s3 = chosen ?s2 @ a3" "set a3 \<subseteq> set ?keys"
    "set a3 \<inter> set (chosen ?s2) = {}" "well_formed toStr ?obj ?s3"
    by auto
  have prio_xs: "list_all (is_priority data) xs"
    using p1(2) by (auto simp: list_all_iff is_priority_def list_ex_iff)
  have rest: "list_all (\<lambda>p. \<not> is_priority data p) (a2 @ a3)"
  proof (cases "sampleCount ?s1 < maxSamples")
    case True
    have "\<not> is_priority data k" if k: "k \<in> set (a2 @ a3)" for k
    proof
      assume "is_priority data k"
      then obtain p where p: "p \<in> set ?prio" "priority_test p k"
        by (auto simp: is_priority_def list_ex_iff)
      have "k \<in> set ?keys" using k p2(2) p3(2) by auto
      then have "k \<in> set (chosen ?s1)"
        using pattern_loop_complete [OF True _ p] by simp
      then show False using k p2(1,3) p3(3) by auto
    qed
    then show ?thesis by (simp add: list_all_iff)
  next
    case False
    then have full1: "sampleCount ?s1 \<ge> maxSamples" by simp
    then have "?s2 = ?s1" by (rule pattern_loop_full)
    then have "a2 = []" "a3 = []"
      using p2(1) p3(1) full1 by auto
    then show ?thesis by simp
  qed
  have sub: "set (xs @ (a2 @ a3)) \<subseteq> set ?keys"
    using p1(2) p2(2) p3(2) by auto
  have "chosen (select_samples toStr data) = xs @ (a2 @ a3)"
    using sel p1(1) p2(1) p3(1) by simp
  then show ?thesis
    using prio_xs rest sub p3(4) sel by (intro exI [of _ xs] exI [of _ "a2 @ a3"]) simp
qed

text \<open>
  Claim C8. For every contents object (its keys are distinct, as an object's keys are)
  and every classification, the selector appends at most \<open>maxSamples\<close> = 10 excerpts, no
  path twice, and the excerpts of paths whose base name matches a priority pattern come
  before all others. The paths are keys of the contents, and the string the selector
  returns is the excerpts of these paths, in order.
\<close>

theorem sample_selection:
  assumes "distinct (object_keys (fileContents data))"
  shows "length (sample_paths toStr data) \<le> maxSamples \<and> maxSamples = 10
     \<and> distinct (sample_paths toStr data)
     \<and> (\<exists>xs ys. sample_paths toStr data = xs @ ys
           \<and> list_all (is_priority data) xs
           \<and> list_all (\<lambda>p. \<not> is_priority data p) ys)
     \<and> set (sample_paths toStr data) \<subseteq> set (object_keys (fileContents data))
     \<and> getSourceCodeSamples toStr data =
         concat (map (excerpt toStr (fileContents data)) (sample_paths toStr data))"
proof -
  from select_samples_props [OF assms, of toStr]
  obtain xs ys where p:
    "chosen (select_samples toStr data) = xs @ ys"
    "list_all (is_priority data) xs" "list_all (\<lambda>p. \<not> is_priority data p) ys"
    "set (xs @ ys) \<subseteq> set (object_keys (fileContents data))"
    "well_formed toStr (fileContents data) (select_samples toStr data)"
    by blast
  have split: "\<exists>xs ys. sample_paths toStr data = xs @ ys
           \<and> list_all (is_priority data) xs
           \<and> list_all (\<lambda>p. \<not> is_priority data p) ys"
    using p(1,2,3) unfolding sample_paths_def by blast
  show ?thesis
    using p(1,4,5) split
    by (simp add: sample_paths_def getSourceCodeSamples_def well_formed_def maxSamples_def)
qed

theorem sample_selection_witness:
  "distinct (object_keys (fileContents sample_workspace))
   \<and> sample_paths object_to_string sample_workspace =
       [''index.ts'', ''src/App.js'', ''README.md'', ''util.js'']
   \<and> length (sample_paths object_to_string sample_workspace) \<le> maxSamples
   \<and> distinct (sample_paths object_to_string sample_workspace)
   \<and> is_priority sample_workspace ''index.ts''
   \<and> is_priority sample_workspace ''src/App.js''
   \<and> \<not> is_priority sample_workspace ''README.md''
   \<and> \<not> is_priority sample_workspace ''util.js''"
proof -
  have d: "distinct (object_keys (fileContents sample_workspace))"
    by code_simp
  have e: "sample_paths object_to_string sample_workspace =
       [''index.ts'', ''src/App.js'', ''README.md'', ''util.js'']"
    by code_simp
  have i: "is_priority sample_workspace ''index.ts''
     \<and> is_priority sample_workspace ''src/App.js''
     \<and> \<not> is_priority sample_workspace ''README.md''
     \<and> \<not> is_priority sample_workspace ''util.js''"
    by code_simp
  from sample_selection [OF d, of object_to_string]
  have "length (sample_paths object_to_string sample_workspace) \<le> maxSamples
     \<and> distinct (sample_paths object_to_string sample_workspace)"
    by blast
  then show ?thesis
    using d e i by blast
qed

end
